theory Spec2Isabelle
  imports Complex_Main "HOL-Library.Sublist"
begin

section \<open>Data model of \<open>src/pages/index.tsx\<close> (the Supabase/Finnhub version of \<open>Home\<close>)\<close>

text \<open>
  A JavaScript \<open>number\<close>. The controller only copies prices around (no arithmetic is
  done on them), so any carrier does; \<open>real\<close> is used.
\<close>

type_synonym number = real

text \<open>\<open>interface StockData { symbol; price; change; percentChange }\<close>\<close>

record StockData =
  symbol :: string
  price :: number
  change :: number
  percentChange :: number

text \<open>
  \<open>interface ChartData { date; price }\<close>. The price is read as \<open>data.c[index]\<close>, which is
  \<open>undefined\<close> beyond the end of \<open>data.c\<close>; that is \<open>None\<close> here.
\<close>

record ChartData =
  date :: string
  chart_price :: "number option"

text \<open>
  A row of the \<open>watchlist\<close> table as the Store returns it. The only write of the
  component is \<open>insert({ symbol })\<close> and the only other column the component reads is
  \<open>id\<close>.
\<close>

record StoreRow =
  row_id :: int
  row_symbol :: string

text \<open>
  \<open>interface WatchlistItem { id; symbol; price?; change?; percentChange? }\<close>; an absent
  optional field is \<open>None\<close>.
\<close>

record WatchlistItem =
  item_id :: int
  item_symbol :: string
  item_price :: "number option"
  item_change :: "number option"
  item_percentChange :: "number option"

section \<open>The external collaborators\<close>

text \<open>
  Body of Finnhub's \<open>/quote\<close> answer: the fields \<open>c\<close>, \<open>d\<close>, \<open>dp\<close> the code reads,
  numbers as \<open>StockData\<close> types the fields they are copied to.
\<close>

record quote_payload =
  q_c :: number
  q_d :: number
  q_dp :: number

text \<open>Body of Finnhub's \<open>/stock/candle\<close> answer: status \<open>s\<close>, timestamps \<open>t\<close>, closes \<open>c\<close>.\<close>

record candle_payload =
  cd_s :: string
  cd_t :: "int list"
  cd_c :: "number list"

text \<open>What a handler can throw: \<open>new Error(message)\<close>, or the Store's error object.\<close>

datatype exn = JsError string | StoreError string

text \<open>The calls that leave the component, in the order they are issued.\<close>

datatype request =
    StoreSelect
  | StoreInsert string
  | StoreDelete string
  | QuoteGet string
  | CandleGet string int int

text \<open>
  The answers of the outside world during one handler run.
  \<^item> \<open>quoteApi k smb\<close> answers the \<open>k\<close>-th quote request of the run, counted from 0
    (\<open>None\<close>: \<open>axios.get\<close> throws, or the answer has no body and reading \<open>data.c\<close>
    throws; both end in the \<open>catch\<close> of \<open>fetchStockData\<close>);
  \<^item> \<open>candleApi smb from to\<close> answers the candle request (\<open>None\<close>: \<open>axios.get\<close> throws,
    or reading the body throws; both end in the \<open>catch\<close> of \<open>fetchChartData\<close>);
  \<^item> \<open>storeSelect\<close>, \<open>storeInsert\<close>, \<open>storeDelete\<close> are the Store's \<open>{ data, error }\<close>
    (\<open>Inl\<close>/\<open>Some\<close>: \<open>error\<close> is set);
  \<^item> \<open>dateNow\<close> is \<open>Date.now()\<close>, in milliseconds;
  \<^item> \<open>toLocaleDateString ms\<close> is \<open>new Date(ms).toLocaleDateString()\<close>;
  \<^item> \<open>completion\<close> is the order in which the concurrent per-row tasks of
    \<open>fetchWatchlist\<close> finish, as indices into the Store's rows.
\<close>

record world =
  quoteApi :: "nat \<Rightarrow> string \<Rightarrow> quote_payload option"
  candleApi :: "string \<Rightarrow> int \<Rightarrow> int \<Rightarrow> candle_payload option"
  storeSelect :: "exn + StoreRow list"
  storeInsert :: "string \<Rightarrow> exn + StoreRow"
  storeDelete :: "string \<Rightarrow> exn option"
  dateNow :: int
  toLocaleDateString :: "int \<Rightarrow> string"
  completion :: "nat list"

section \<open>The component state\<close>

text \<open>
  The \<open>useState\<close> cells of \<open>Home\<close>, and \<open>requests\<close>: the log of the calls issued so
  far (not a cell of the component; it makes the calls observable).
\<close>

record Home =
  ticker :: string
  stockData :: "StockData option"
  chartData :: "ChartData list"
  loading :: bool
  error :: string
  watchlist :: "WatchlistItem list"
  watchlistLoading :: bool
  showWatchlist :: bool
  requests :: "request list"

definition Home_init :: Home where
  "Home_init =
     \<lparr>ticker = [], stockData = None, chartData = [], loading = False, error = [],
      watchlist = [], watchlistLoading = True, showWatchlist = False, requests = []\<rparr>"

definition issue :: "request \<Rightarrow> Home \<Rightarrow> Home" where
  "issue r st = st\<lparr>requests := requests st @ [r]\<rparr>"

section \<open>The fetchers\<close>

text \<open>
  \<open>fetchStockData\<close> (lines 233-247): the quote of \<open>symbol\<close>, or
  \<open>Error('Failed to fetch stock data')\<close> when the request throws. The number \<open>k\<close> says
  which quote request of the run this is.
\<close>

definition fetchStockData :: "world \<Rightarrow> nat \<Rightarrow> string \<Rightarrow> exn + StockData" where
  "fetchStockData w k smb =
     (case quoteApi w k smb of
        None \<Rightarrow> Inl (JsError ''Failed to fetch stock data'')
      | Some data \<Rightarrow>
          Inr \<lparr>symbol = smb, price = q_c data, change = q_d data, percentChange = q_dp data\<rparr>)"

text \<open>\<open>data.t.map((timestamp, index) => ({ date: ..., price: data.c[index] }))\<close>\<close>

definition candle_points :: "world \<Rightarrow> candle_payload \<Rightarrow> ChartData list" where
  "candle_points w data =
     map (\<lambda>(timestamp, index).
            \<lparr>date = toLocaleDateString w (timestamp * 1000),
             chart_price =
               (if index < length (cd_c data) then Some (cd_c data ! index) else None)\<rparr>)
         (zip (cd_t data) [0..<length (cd_t data)])"

text \<open>
  \<open>fetchChartData\<close> (lines 249-269). Every failure ends in \<open>setChartData([])\<close>; nothing is
  thrown.
\<close>

definition fetchChartData :: "world \<Rightarrow> string \<Rightarrow> Home \<Rightarrow> Home" where
  "fetchChartData w smb st =
     (let to = dateNow w div 1000;
          from = to - 30 * 24 * 60 * 60;
          st1 = issue (CandleGet smb from to) st
      in case candleApi w smb from to of
           None \<Rightarrow> st1\<lparr>chartData := []\<rparr>
         | Some data \<Rightarrow>
             if cd_s data = ''ok''
             then st1\<lparr>chartData := candle_points w data\<rparr>
             else st1\<lparr>chartData := []\<rparr>)"

section \<open>The watchlist controller\<close>

text \<open>\<open>{ ...item, ...stockData }\<close>: the row's \<open>id\<close>, then the four fields of the quote.\<close>

definition with_quote :: "StoreRow \<Rightarrow> StockData \<Rightarrow> WatchlistItem" where
  "with_quote item sd =
     \<lparr>item_id = row_id item, item_symbol = symbol sd, item_price = Some (price sd),
      item_change = Some (change sd), item_percentChange = Some (percentChange sd)\<rparr>"

text \<open>A row kept as it is (\<open>return item\<close>): no quote field.\<close>

definition without_quote :: "StoreRow \<Rightarrow> WatchlistItem" where
  "without_quote item =
     \<lparr>item_id = row_id item, item_symbol = row_symbol item, item_price = None,
      item_change = None, item_percentChange = None\<rparr>"

text \<open>
  The callback of \<open>data.map\<close> in \<open>fetchWatchlist\<close> (lines 281-289), for the row at
  position \<open>k\<close>: its own \<open>try\<close>/\<open>catch\<close> turns a failed quote into the bare row.
\<close>

definition load_item :: "world \<Rightarrow> nat \<Rightarrow> StoreRow \<Rightarrow> WatchlistItem" where
  "load_item w k item =
     (case fetchStockData w k (row_symbol item) of
        Inr sd \<Rightarrow> with_quote item sd
      | Inl err \<Rightarrow> without_quote item)"

text \<open>
  \<open>data.map(async (item) => ...)\<close>: the value each row's task fulfils with, by position.
  The task of the row at position \<open>k\<close> issues the \<open>k\<close>-th quote request.
\<close>

definition load_all :: "world \<Rightarrow> StoreRow list \<Rightarrow> WatchlistItem list" where
  "load_all w data = map (\<lambda>(k, item). load_item w k item) (enumerate 0 data)"

text \<open>
  \<open>Promise.all\<close> over tasks that all fulfil (none of the callbacks above can reject).
  Each task that finishes stores its value in its own slot; the joined promise fulfils
  with the slots, read by position, once every slot is filled. \<open>None\<close>: some task never
  finished, so the joined promise never settles.
\<close>

definition promise_all :: "nat list \<Rightarrow> 'a list \<Rightarrow> 'a list option" where
  "promise_all order results =
     those (fold (\<lambda>i slots. if i < length results then slots[i := Some (results ! i)] else slots)
                 order (replicate (length results) None))"

text \<open>Every one of \<open>n\<close> tasks finishes, and finishes once.\<close>

definition settles_each_once :: "nat \<Rightarrow> nat list \<Rightarrow> bool" where
  "settles_each_once n order = (sort order = [0..<n])"

text \<open>
  \<open>fetchWatchlist\<close> (lines 271-298). The requests of the rows are issued in row order
  (the callbacks run up to their first \<open>await\<close> inside \<open>data.map\<close>); they finish in the
  order \<open>completion w\<close>.
\<close>

definition fetchWatchlist :: "world \<Rightarrow> Home \<Rightarrow> Home option" where
  "fetchWatchlist w st =
     (let st1 = issue StoreSelect (st\<lparr>watchlistLoading := True\<rparr>)
      in case storeSelect w of
           Inl err \<Rightarrow>
             Some (st1\<lparr>error := ''Failed to fetch watchlist. Please try again.'',
                       watchlistLoading := False\<rparr>)
         | Inr data \<Rightarrow>
             (let st2 = st1\<lparr>requests := requests st1 @ map (\<lambda>item. QuoteGet (row_symbol item)) data\<rparr>
              in case promise_all (completion w) (load_all w data) of
                   None \<Rightarrow> None
                 | Some updatedWatchlist \<Rightarrow>
                     Some (st2\<lparr>watchlist := updatedWatchlist, watchlistLoading := False\<rparr>)))"

text \<open>\<open>addToWatchlist\<close> (lines 300-317): one \<open>try\<close> around the insert and the quote.\<close>

definition addToWatchlist :: "world \<Rightarrow> string \<Rightarrow> Home \<Rightarrow> Home" where
  "addToWatchlist w smb st =
     (let st1 = issue (StoreInsert smb) st
      in case storeInsert w smb of
           Inl err \<Rightarrow> st1\<lparr>error := ''Failed to add to watchlist. Please try again.''\<rparr>
         | Inr data \<Rightarrow>
             (let st2 = issue (QuoteGet smb) st1
              in case fetchStockData w 0 smb of
                   Inl err \<Rightarrow> st2\<lparr>error := ''Failed to add to watchlist. Please try again.''\<rparr>
                 | Inr sd \<Rightarrow> st2\<lparr>watchlist := watchlist st2 @ [with_quote data sd]\<rparr>))"

text \<open>\<open>removeFromWatchlist\<close> (lines 319-334).\<close>

definition removeFromWatchlist :: "world \<Rightarrow> string \<Rightarrow> Home \<Rightarrow> Home" where
  "removeFromWatchlist w smb st =
     (let st1 = issue (StoreDelete smb) st
      in case storeDelete w smb of
           Some err \<Rightarrow> st1\<lparr>error := ''Failed to remove from watchlist. Please try again.''\<rparr>
         | None \<Rightarrow> st1\<lparr>watchlist := filter (\<lambda>item. item_symbol item \<noteq> smb) (watchlist st1)\<rparr>)"

text \<open>\<open>isInWatchlist\<close> (line 355): \<open>watchlist.some(item => item && item.symbol === symbol)\<close>.\<close>

definition isInWatchlist :: "WatchlistItem list \<Rightarrow> string \<Rightarrow> bool" where
  "isInWatchlist wl smb = list_ex (\<lambda>item. item_symbol item = smb) wl"

text \<open>\<open>handleWatchlistToggle\<close> (lines 357-363), the only caller of \<open>addToWatchlist\<close>.\<close>

definition handleWatchlistToggle :: "world \<Rightarrow> string \<Rightarrow> Home \<Rightarrow> Home" where
  "handleWatchlistToggle w smb st =
     (if isInWatchlist (watchlist st) smb
      then removeFromWatchlist w smb st
      else addToWatchlist w smb st)"

section \<open>The search controller\<close>

text \<open>
  \<open>handleSearch\<close> (lines 336-353) reads the \<open>ticker\<close> cell. The \<open>catch\<close> resets
  \<open>stockData\<close> only; \<open>finally\<close> resets \<open>loading\<close>.
\<close>

definition handleSearch :: "world \<Rightarrow> Home \<Rightarrow> Home" where
  "handleSearch w st =
     (if ticker st \<noteq> []
      then
        (let st1 = issue (QuoteGet (ticker st)) (st\<lparr>loading := True, error := []\<rparr>)
         in case fetchStockData w 0 (ticker st) of
              Inr data \<Rightarrow>
                (fetchChartData w (ticker st) (st1\<lparr>stockData := Some data\<rparr>))\<lparr>loading := False\<rparr>
            | Inl err \<Rightarrow>
                st1\<lparr>error := ''Failed to fetch stock data. Please try again.'',
                    stockData := None, loading := False\<rparr>)
      else st)"

text \<open>
  \<open>handleWatchlistSelect\<close> (lines 365-368): \<open>setTicker(symbol)\<close> is queued, and
  \<open>handleSearch\<close> runs with the \<open>ticker\<close> of the current render.
\<close>

definition handleWatchlistSelect :: "world \<Rightarrow> string \<Rightarrow> Home \<Rightarrow> Home" where
  "handleWatchlistSelect w smb st = (handleSearch w st)\<lparr>ticker := smb\<rparr>"

section \<open>The view's intents\<close>

text \<open>
  What the rendered page lets the user do. While \<open>watchlistLoading\<close> holds the
  component renders only a placeholder, so nothing can be clicked (line 370). The star
  is rendered only with a \<open>stockData\<close> and toggles \<open>stockData.symbol\<close> (line 408); the
  side panel is rendered only when \<open>showWatchlist\<close> holds, with a row and a Remove
  button for each item of the watchlist (lines 189-212, 445).
\<close>

datatype event =
    ChangeTicker string
  | SubmitSearch
  | ClickStar
  | ClickRemove string
  | ClickSelect string
  | ClickPanelButton












text \<open>
  One intent whose handler runs from its beginning to its end with nothing in between:
  no other intent is taken and no other handler resumes while it awaits. All its answers
  come from one world.
\<close>

definition step :: "world \<Rightarrow> event \<Rightarrow> Home \<Rightarrow> Home" where
  "step w ev st =
     (if watchlistLoading st then st
      else case ev of
             ChangeTicker v \<Rightarrow> st\<lparr>ticker := v\<rparr>
           | SubmitSearch \<Rightarrow> handleSearch w st
           | ClickStar \<Rightarrow>
               (case stockData st of
                  None \<Rightarrow> st
                | Some sd \<Rightarrow> handleWatchlistToggle w (symbol sd) st)
           | ClickRemove smb \<Rightarrow>
               (if showWatchlist st \<and> isInWatchlist (watchlist st) smb
                then removeFromWatchlist w smb st else st)
           | ClickSelect smb \<Rightarrow>
               (if showWatchlist st \<and> isInWatchlist (watchlist st) smb
                then handleWatchlistSelect w smb st else st)
           | ClickPanelButton \<Rightarrow> st\<lparr>showWatchlist := \<not> showWatchlist st\<rparr>)"


section \<open>Example worlds and states\<close>

text \<open>
  A stand-in for \<open>toLocaleDateString\<close>: the en-US rendering, in UTC, of 13 and 14
  November 2023 (days 19674 and 19675 of the epoch); the examples that read a date use no
  other day.
\<close>

definition example_date :: "int \<Rightarrow> string" where
  "example_date ms = (if ms div 86400000 = 19675 then ''11/14/2023'' else ''11/13/2023'')"

text \<open>Everything answers: three rows in the Store, a quote and two candles per symbol.\<close>

definition world_up :: world where
  "world_up =
     \<lparr>quoteApi = (\<lambda>k smb. Some \<lparr>q_c = 189.5, q_d = - 2, q_dp = - 1\<rparr>),
      candleApi = (\<lambda>smb from to. Some \<lparr>cd_s = ''ok'', cd_t = [1699833600, 1699920000], cd_c = [188, 189.5]\<rparr>),
      storeSelect = Inr [\<lparr>row_id = 1, row_symbol = ''AAPL''\<rparr>,
                         \<lparr>row_id = 2, row_symbol = ''MSFT''\<rparr>,
                         \<lparr>row_id = 3, row_symbol = ''aapl''\<rparr>],
      storeInsert = (\<lambda>smb. Inr \<lparr>row_id = 7, row_symbol = smb\<rparr>),
      storeDelete = (\<lambda>smb. None),
      dateNow = 1700000000123,
      toLocaleDateString = example_date,
      completion = [2, 0, 1]\<rparr>"

text \<open>The quote provider is down.\<close>

definition world_quote_down :: world where
  "world_quote_down = world_up\<lparr>quoteApi := (\<lambda>k smb. None)\<rparr>"

text \<open>The Store is down.\<close>

definition world_store_down :: world where
  "world_store_down =
     world_up\<lparr>storeSelect := Inl (StoreError ''fetch failed''),
              storeInsert := (\<lambda>smb. Inl (StoreError ''fetch failed'')),
              storeDelete := (\<lambda>smb. Some (StoreError ''fetch failed''))\<rparr>"

text \<open>A page after a search for AAPL, with three symbols on the watchlist.\<close>

definition example_home :: Home where
  "example_home =
     \<lparr>ticker = ''AAPL'',
      stockData = Some \<lparr>symbol = ''AAPL'', price = 189.5, change = - 2, percentChange = - 1\<rparr>,
      chartData = [\<lparr>date = ''11/13/2023'', chart_price = Some 188\<rparr>,
                   \<lparr>date = ''11/14/2023'', chart_price = Some 189.5\<rparr>],
      loading = False,
      error = [],
      watchlist = [\<lparr>item_id = 1, item_symbol = ''AAPL'', item_price = Some 189.5,
                     item_change = Some (- 2), item_percentChange = Some (- 1)\<rparr>,
                   \<lparr>item_id = 2, item_symbol = ''MSFT'', item_price = None,
                     item_change = None, item_percentChange = None\<rparr>,
                   \<lparr>item_id = 3, item_symbol = ''aapl'', item_price = Some 189.5,
                     item_change = Some (- 2), item_percentChange = Some (- 1)\<rparr>],
      watchlistLoading = False,
      showWatchlist = True,
      requests = []\<rparr>"

text \<open>The quote provider fails for MSFT only.\<close>

definition world_msft_down :: world where
  "world_msft_down =
     world_up\<lparr>quoteApi :=
                (\<lambda>k smb. if smb = ''MSFT'' then None
                          else Some \<lparr>q_c = 189.5, q_d = - 2, q_dp = - 1\<rparr>)\<rparr>"

text \<open>
  The provider answers a window that starts and ends at midnight UTC with a candle for
  each of its 31 midnights.
\<close>

definition world_31_candles :: world where
  "world_31_candles =
     world_up\<lparr>dateNow := 1699920000000,
              candleApi := (\<lambda>smb from to.
                 Some \<lparr>cd_s = ''ok'',
                       cd_t = map (\<lambda>k. from + int k * 86400) [0..<31],
                       cd_c = replicate 31 188\<rparr>)\<rparr>"

text \<open>The provider lists the newest candle first.\<close>

definition world_newest_first :: world where
  "world_newest_first =
     world_up\<lparr>candleApi := (\<lambda>smb from to.
                 Some \<lparr>cd_s = ''ok'', cd_t = [1699920000, 1699833600], cd_c = [189.5, 188]\<rparr>)\<rparr>"

text \<open>The provider has no candles for the symbol.\<close>

definition world_no_data :: world where
  "world_no_data =
     world_up\<lparr>candleApi := (\<lambda>smb from to. Some \<lparr>cd_s = ''no_data'', cd_t = [], cd_c = []\<rparr>)\<rparr>"

text \<open>The page of \<open>world_up\<close> once mounted.\<close>

definition loaded_home :: Home where
  "loaded_home =
     \<lparr>ticker = [], stockData = None, chartData = [], loading = False, error = [],
      watchlist = [\<lparr>item_id = 1, item_symbol = ''AAPL'', item_price = Some 189.5,
                     item_change = Some (- 2), item_percentChange = Some (- 1)\<rparr>,
                   \<lparr>item_id = 2, item_symbol = ''MSFT'', item_price = Some 189.5,
                     item_change = Some (- 2), item_percentChange = Some (- 1)\<rparr>,
                   \<lparr>item_id = 3, item_symbol = ''aapl'', item_price = Some 189.5,
                     item_change = Some (- 2), item_percentChange = Some (- 1)\<rparr>],
      watchlistLoading = False, showWatchlist = False,
      requests = [StoreSelect, QuoteGet ''AAPL'', QuoteGet ''MSFT'', QuoteGet ''aapl'']\<rparr>"

text \<open>That page after TSLA was typed and searched.\<close>

definition tsla_page :: Home where
  "tsla_page = step world_up SubmitSearch (step world_up (ChangeTicker ''TSLA'') loaded_home)"



section \<open>What each handler does, case by case\<close>

lemma isInWatchlist_iff: "isInWatchlist wl smb \<longleftrightarrow> smb \<in> item_symbol ` set wl"
  by (auto simp: isInWatchlist_def list_ex_iff)

lemma remove_ok:
  "storeDelete w smb = None \<Longrightarrow>
   removeFromWatchlist w smb st =
     st\<lparr>watchlist := filter (\<lambda>item. item_symbol item \<noteq> smb) (watchlist st),
        requests := requests st @ [StoreDelete smb]\<rparr>"
  by (simp add: removeFromWatchlist_def issue_def Let_def)

lemma remove_failed:
  "storeDelete w smb = Some err \<Longrightarrow>
   removeFromWatchlist w smb st =
     st\<lparr>error := ''Failed to remove from watchlist. Please try again.'',
        requests := requests st @ [StoreDelete smb]\<rparr>"
  by (simp add: removeFromWatchlist_def issue_def Let_def)

lemma filter_absent:
  "\<not> isInWatchlist wl smb \<Longrightarrow> filter (\<lambda>item. item_symbol item \<noteq> smb) wl = wl"
  by (auto simp: isInWatchlist_iff filter_id_conv)





lemma chart_fetched:
  "fetchChartData w smb st =
     st\<lparr>chartData :=
           (case candleApi w smb (dateNow w div 1000 - 2592000) (dateNow w div 1000) of
              None \<Rightarrow> []
            | Some data \<Rightarrow> if cd_s data = ''ok'' then candle_points w data else []),
        requests := requests st @
           [CandleGet smb (dateNow w div 1000 - 2592000) (dateNow w div 1000)]\<rparr>"
  by (simp add: fetchChartData_def issue_def Let_def split: option.splits)



lemma search_quote_ok:
  "ticker st \<noteq> [] \<Longrightarrow> quoteApi w 0 (ticker st) = Some q \<Longrightarrow>
   handleSearch w st =
     st\<lparr>stockData := Some \<lparr>symbol = ticker st, price = q_c q, change = q_d q,
                             percentChange = q_dp q\<rparr>,
        loading := False, error := [],
        chartData :=
           (case candleApi w (ticker st) (dateNow w div 1000 - 2592000) (dateNow w div 1000) of
              None \<Rightarrow> []
            | Some data \<Rightarrow> if cd_s data = ''ok'' then candle_points w data else []),
        requests := requests st @
           [QuoteGet (ticker st),
            CandleGet (ticker st) (dateNow w div 1000 - 2592000) (dateNow w div 1000)]\<rparr>"
  by (simp add: handleSearch_def fetchStockData_def chart_fetched issue_def Let_def)

lemma candle_points_dates:
  "map date (candle_points w data) = map (\<lambda>ts. toLocaleDateString w (ts * 1000)) (cd_t data)"
  by (rule nth_equalityI) (simp_all add: candle_points_def)

lemma candle_points_length: "length (candle_points w data) = length (cd_t data)"
  by (simp add: candle_points_def)

subsection \<open>Joining the concurrent quote fetches\<close>

lemma those_map_Some: "those (map Some xs) = Some xs"
  by (induction xs) simp_all

lemma fold_slots_length:
  "length (fold (\<lambda>i slots. if i < n then slots[i := Some (results ! i)] else slots) order slots)
     = length slots"
  by (induction order arbitrary: slots) simp_all

lemma fold_slots_nth:
  "j < length slots \<Longrightarrow>
   fold (\<lambda>i slots. if i < n then slots[i := Some (results ! i)] else slots) order slots ! j
     = (if j \<in> set order \<and> j < n then Some (results ! j) else slots ! j)"
proof (induction order arbitrary: slots)
  case Nil
  then show ?case by simp
next
  case (Cons i order)
  then show ?case by (auto simp: nth_list_update)
qed

lemma promise_all_joined_by_position:
  assumes "{..<length results} \<subseteq> set order"
  shows "promise_all order results = Some results"
proof -
  let ?slots = "fold (\<lambda>i slots. if i < length results then slots[i := Some (results ! i)] else slots)
                  order (replicate (length results) None)"
  have "?slots = map Some results"
  proof (rule nth_equalityI)
    show "length ?slots = length (map Some results)"
      by (simp add: fold_slots_length)
  next
    fix j assume "j < length ?slots"
    then have j: "j < length results" by (simp add: fold_slots_length)
    with assms have "j \<in> set order" by auto
    with j show "?slots ! j = map Some results ! j"
      by (simp add: fold_slots_nth)
  qed
  then show ?thesis by (simp add: promise_all_def those_map_Some)
qed

lemma settles_each_once_set:
  assumes "settles_each_once n order"
  shows "set order = {..<n}"
proof -
  from assms have "set (sort order) = set [0..<n]" by (simp add: settles_each_once_def)
  then show ?thesis by (simp add: atLeast0LessThan)
qed

lemma length_load_all: "length (load_all w data) = length data"
  by (simp add: load_all_def)

lemma load_all_nth:
  "i < length data \<Longrightarrow> load_all w data ! i = load_item w i (data ! i)"
  by (simp add: load_all_def nth_enumerate_eq)

lemma fetchWatchlist_loaded:
  assumes "storeSelect w = Inr data" and "settles_each_once (length data) (completion w)"
  shows "fetchWatchlist w st =
           Some (st\<lparr>watchlist := load_all w data,
                    watchlistLoading := False,
                    requests := requests st @ StoreSelect # map (\<lambda>item. QuoteGet (row_symbol item)) data\<rparr>)"
proof -
  have "promise_all (completion w) (load_all w data) = Some (load_all w data)"
    using settles_each_once_set [OF assms(2)]
    by (intro promise_all_joined_by_position) (simp add: length_load_all)
  with assms(1) show ?thesis
    by (simp add: fetchWatchlist_def issue_def Let_def)
qed

lemma fetchWatchlist_store_failed:
  "storeSelect w = Inl err \<Longrightarrow>
   fetchWatchlist w st =
     Some (st\<lparr>error := ''Failed to fetch watchlist. Please try again.'',
              watchlistLoading := False, requests := requests st @ [StoreSelect]\<rparr>)"
  by (simp add: fetchWatchlist_def issue_def Let_def)

lemma load_item_symbol: "item_symbol (load_item w k item) = row_symbol item"
  by (simp add: load_item_def fetchStockData_def with_quote_def without_quote_def
        split: option.splits)

lemma load_item_id: "item_id (load_item w k item) = row_id item"
  by (simp add: load_item_def fetchStockData_def with_quote_def without_quote_def
        split: option.splits)

lemma load_item_failed:
  "quoteApi w k (row_symbol item) = None \<Longrightarrow> load_item w k item = without_quote item"
  by (simp add: load_item_def fetchStockData_def)

lemma load_item_quoted:
  "quoteApi w k (row_symbol item) = Some q \<Longrightarrow>
   load_item w k item =
     \<lparr>item_id = row_id item, item_symbol = row_symbol item, item_price = Some (q_c q),
      item_change = Some (q_d q), item_percentChange = Some (q_dp q)\<rparr>"
  by (simp add: load_item_def fetchStockData_def with_quote_def)

lemma load_all_symbols: "map item_symbol (load_all w data) = map row_symbol data"
  by (rule nth_equalityI) (simp_all add: length_load_all load_all_nth load_item_symbol)

lemma load_all_ids: "map item_id (load_all w data) = map row_id data"
  by (rule nth_equalityI) (simp_all add: length_load_all load_all_nth load_item_id)

subsection \<open>What an intent leaves alone\<close>





subsection \<open>Handlers in flight\<close>

















subsection \<open>The example page\<close>


lemma tsla_page_eq:
  "tsla_page =
     loaded_home\<lparr>ticker := ''TSLA'',
       stockData := Some \<lparr>symbol = ''TSLA'', price = 189.5, change = - 2, percentChange = - 1\<rparr>,
       chartData := [\<lparr>date = ''11/13/2023'', chart_price = Some 188\<rparr>,
                     \<lparr>date = ''11/14/2023'', chart_price = Some 189.5\<rparr>],
       requests := requests loaded_home @
          [QuoteGet ''TSLA'', CandleGet ''TSLA'' 1697408000 1700000000]\<rparr>"
  by (simp add: tsla_page_def step_def handleSearch_def fetchStockData_def fetchChartData_def
        candle_points_def issue_def Let_def world_up_def loaded_home_def example_date_def upt_rec)


section \<open>The claims\<close>

text \<open>
  C1. The spec has \<open>add\<close> append the new entry, quote unset, when the Store insert
  succeeds and the quote fetch then fails. The code does not: \<open>addToWatchlist\<close> has one
  \<open>try\<close> around both calls, so the failed quote skips \<open>setWatchlist\<close>. Evaluated for
  TSLA with the quote provider down: the insert is issued and succeeds, no delete
  follows it, the watchlist in memory is what it was (TSLA is not on it), and the error
  shown says the add failed.
\<close>

theorem add_drops_entry_when_quote_fails:
  "storeInsert world_quote_down ''TSLA'' = Inr \<lparr>row_id = 7, row_symbol = ''TSLA''\<rparr>
   \<and> quoteApi world_quote_down 0 ''TSLA'' = None
   \<and> requests (addToWatchlist world_quote_down ''TSLA'' example_home)
       = [StoreInsert ''TSLA'', QuoteGet ''TSLA'']
   \<and> watchlist (addToWatchlist world_quote_down ''TSLA'' example_home) = watchlist example_home
   \<and> \<not> isInWatchlist (watchlist (addToWatchlist world_quote_down ''TSLA'' example_home)) ''TSLA''
   \<and> error (addToWatchlist world_quote_down ''TSLA'' example_home)
       = ''Failed to add to watchlist. Please try again.''"
  by (simp add: addToWatchlist_def fetchStockData_def issue_def Let_def isInWatchlist_def
        world_quote_down_def world_up_def example_home_def)

text \<open>
  C2. Whatever the Store holds, and whichever of the per-row quote fetches fail, a load
  whose Store read succeeds ends with one entry per row, in place: the entry of a row
  whose quote failed has no quote field, the entry of a row whose quote arrived has all
  three, and no error is set.
\<close>

theorem load_isolates_quote_failures:
  assumes "storeSelect w = Inr data" and "settles_each_once (length data) (completion w)"
  shows "\<exists>st'. fetchWatchlist w st = Some st'
           \<and> length (watchlist st') = length data
           \<and> error st' = error st
           \<and> (\<forall>i < length data.
                 item_id (watchlist st' ! i) = row_id (data ! i)
               \<and> item_symbol (watchlist st' ! i) = row_symbol (data ! i)
               \<and> (quoteApi w i (row_symbol (data ! i)) = None \<longrightarrow>
                     item_price (watchlist st' ! i) = None
                   \<and> item_change (watchlist st' ! i) = None
                   \<and> item_percentChange (watchlist st' ! i) = None)
               \<and> (\<forall>q. quoteApi w i (row_symbol (data ! i)) = Some q \<longrightarrow>
                     item_price (watchlist st' ! i) = Some (q_c q)
                   \<and> item_change (watchlist st' ! i) = Some (q_d q)
                   \<and> item_percentChange (watchlist st' ! i) = Some (q_dp q)))"
  by (simp add: fetchWatchlist_loaded [OF assms] length_load_all load_all_nth load_item_symbol
        load_item_id load_item_failed load_item_quoted without_quote_def)

theorem load_isolates_quote_failures_witness:
  "\<exists>st'. fetchWatchlist world_msft_down Home_init = Some st'
     \<and> length (watchlist st') = 3
     \<and> error st' = []
     \<and> item_price (watchlist st' ! 0) = Some 189.5
     \<and> item_symbol (watchlist st' ! 1) = ''MSFT''
     \<and> item_price (watchlist st' ! 1) = None
     \<and> item_change (watchlist st' ! 1) = None
     \<and> item_percentChange (watchlist st' ! 1) = None
     \<and> item_price (watchlist st' ! 2) = Some 189.5"
proof -
  let ?data = "[\<lparr>row_id = 1, row_symbol = ''AAPL''\<rparr>, \<lparr>row_id = 2, row_symbol = ''MSFT''\<rparr>,
                \<lparr>row_id = 3, row_symbol = ''aapl''\<rparr>]"
  have sel: "storeSelect world_msft_down = Inr ?data"
    by (simp add: world_msft_down_def world_up_def)
  have ord: "settles_each_once (length ?data) (completion world_msft_down)"
    by (simp add: settles_each_once_def world_msft_down_def world_up_def upt_rec)
  from load_isolates_quote_failures [OF sel ord, of Home_init]
  obtain st' where st': "fetchWatchlist world_msft_down Home_init = Some st'"
    "length (watchlist st') = length ?data" "error st' = error Home_init"
    and each: "\<forall>i < length ?data.
                 item_id (watchlist st' ! i) = row_id (?data ! i)
               \<and> item_symbol (watchlist st' ! i) = row_symbol (?data ! i)
               \<and> (quoteApi world_msft_down i (row_symbol (?data ! i)) = None \<longrightarrow>
                     item_price (watchlist st' ! i) = None
                   \<and> item_change (watchlist st' ! i) = None
                   \<and> item_percentChange (watchlist st' ! i) = None)
               \<and> (\<forall>q. quoteApi world_msft_down i (row_symbol (?data ! i)) = Some q \<longrightarrow>
                     item_price (watchlist st' ! i) = Some (q_c q)
                   \<and> item_change (watchlist st' ! i) = Some (q_d q)
                   \<and> item_percentChange (watchlist st' ! i) = Some (q_dp q))"
    by blast
  from each have "item_price (watchlist st' ! 0) = Some 189.5"
    by (simp add: world_msft_down_def world_up_def)
  moreover from each have "item_symbol (watchlist st' ! 1) = ''MSFT''
     \<and> item_price (watchlist st' ! 1) = None
     \<and> item_change (watchlist st' ! 1) = None
     \<and> item_percentChange (watchlist st' ! 1) = None"
    by (simp add: world_msft_down_def world_up_def)
  moreover from each have "item_price (watchlist st' ! 2) = Some 189.5"
    by (simp add: world_msft_down_def world_up_def)
  ultimately show ?thesis
    using st' by (simp add: Home_init_def)
qed










text \<open>
  C4. A search whose quote fetch fails surfaces the error, clears the quote and never
  calls the History Fetcher; but the chart of the previous search is not cleared, as the
  spec says it is. \<open>handleSearch\<close>'s \<open>catch\<close> resets \<open>stockData\<close> and leaves
  \<open>chartData\<close>. Evaluated for BADSYM typed on the page that shows AAPL, with the quote
  provider down: one quote request and no candle request, \<open>stockData\<close> gone, the error
  set, and the two AAPL points still in \<open>chartData\<close>.
\<close>

theorem search_keeps_stale_chart:
  "quoteApi world_quote_down 0 ''BADSYM'' = None
   \<and> requests (handleSearch world_quote_down (example_home\<lparr>ticker := ''BADSYM''\<rparr>))
       = [QuoteGet ''BADSYM'']
   \<and> stockData (handleSearch world_quote_down (example_home\<lparr>ticker := ''BADSYM''\<rparr>)) = None
   \<and> error (handleSearch world_quote_down (example_home\<lparr>ticker := ''BADSYM''\<rparr>))
       = ''Failed to fetch stock data. Please try again.''
   \<and> chartData (handleSearch world_quote_down (example_home\<lparr>ticker := ''BADSYM''\<rparr>))
       = [\<lparr>date = ''11/13/2023'', chart_price = Some 188\<rparr>,
          \<lparr>date = ''11/14/2023'', chart_price = Some 189.5\<rparr>]"
  by (simp add: handleSearch_def fetchStockData_def issue_def Let_def
        world_quote_down_def world_up_def example_home_def)

text \<open>
  C5. The watchlist a load produces lists the Store's rows in the Store's order,
  whatever the order in which the concurrent quote fetches finish: two loads that differ
  only in that order end in the same state, whose entries carry the rows' symbols and
  ids position by position.
\<close>

theorem load_keeps_store_order:
  assumes "storeSelect w = Inr data"
    and "settles_each_once (length data) order" and "settles_each_once (length data) order'"
  shows "fetchWatchlist (w\<lparr>completion := order\<rparr>) st = fetchWatchlist (w\<lparr>completion := order'\<rparr>) st
       \<and> (\<exists>st'. fetchWatchlist (w\<lparr>completion := order\<rparr>) st = Some st'
             \<and> map item_symbol (watchlist st') = map row_symbol data
             \<and> map item_id (watchlist st') = map row_id data)"
proof -
  have "load_item (w\<lparr>completion := ord\<rparr>) k item = load_item w k item" for ord k item
    by (simp add: load_item_def fetchStockData_def)
  then have same: "load_all (w\<lparr>completion := ord\<rparr>) data = load_all w data" for ord
    by (simp add: load_all_def)
  have "fetchWatchlist (w\<lparr>completion := ord\<rparr>) st =
          Some (st\<lparr>watchlist := load_all w data,
                   watchlistLoading := False,
                   requests := requests st @ StoreSelect # map (\<lambda>item. QuoteGet (row_symbol item)) data\<rparr>)"
    if "settles_each_once (length data) ord" for ord
    using assms(1) that by (simp add: fetchWatchlist_loaded same)
  with assms(2,3) show ?thesis
    by (simp add: load_all_symbols load_all_ids)
qed

theorem load_keeps_store_order_witness:
  "fetchWatchlist (world_up\<lparr>completion := [2, 0, 1]\<rparr>) Home_init
     = fetchWatchlist (world_up\<lparr>completion := [1, 2, 0]\<rparr>) Home_init
   \<and> (\<exists>st'. fetchWatchlist (world_up\<lparr>completion := [2, 0, 1]\<rparr>) Home_init = Some st'
         \<and> map item_symbol (watchlist st') = [''AAPL'', ''MSFT'', ''aapl'']
         \<and> map item_id (watchlist st') = [1, 2, 3])"
proof -
  let ?data = "[\<lparr>row_id = 1, row_symbol = ''AAPL''\<rparr>, \<lparr>row_id = 2, row_symbol = ''MSFT''\<rparr>,
                \<lparr>row_id = 3, row_symbol = ''aapl''\<rparr>]"
  have sel: "storeSelect world_up = Inr ?data"
    by (simp add: world_up_def)
  have o1: "settles_each_once (length ?data) [2, 0, 1]"
    and o2: "settles_each_once (length ?data) [1, 2, 0]"
    by (simp_all add: settles_each_once_def upt_rec)
  have syms: "map row_symbol ?data = [''AAPL'', ''MSFT'', ''aapl'']"
    and ids: "map row_id ?data = [1, 2, 3]"
    by simp_all
  show ?thesis
    using load_keeps_store_order [OF sel o1 o2, of Home_init] unfolding syms ids .
qed

text \<open>
  C6, as the spec states it, fails: the series is not capped at 30 entries and is not
  put in order. \<open>fetchChartData\<close> maps the provider's timestamps one to one; with a
  window from midnight to midnight the provider's 31 daily candles, all inside the
  window asked for, give 31 entries, and a provider that lists the newest candle first
  gives a series that runs backwards.
\<close>

theorem history_not_capped_counterexample:
  "\<not> length (chartData (handleSearch world_31_candles example_home)) \<le> 30
   \<and> map date (chartData (handleSearch world_newest_first example_home))
       = [''11/14/2023'', ''11/13/2023'']"
proof -
  have q1: "quoteApi world_31_candles 0 (ticker example_home)
              = Some \<lparr>q_c = 189.5, q_d = - 2, q_dp = - 1\<rparr>"
    and q2: "quoteApi world_newest_first 0 (ticker example_home)
              = Some \<lparr>q_c = 189.5, q_d = - 2, q_dp = - 1\<rparr>"
    and t: "ticker example_home \<noteq> []"
    by (simp_all add: world_31_candles_def world_newest_first_def world_up_def example_home_def)
  have "length (chartData (handleSearch world_31_candles example_home)) = 31"
    by (simp add: search_quote_ok [OF t q1])
       (simp add: world_31_candles_def candle_points_length)
  moreover have "map date (chartData (handleSearch world_newest_first example_home))
       = [''11/14/2023'', ''11/13/2023'']"
    by (simp add: search_quote_ok [OF t q2])
       (simp add: world_newest_first_def world_up_def candle_points_dates example_date_def)
  ultimately show ?thesis by simp
qed

text \<open>
  C6, amended. A search whose quote arrives asks the History Fetcher for the window
  from now - 30 * 86400 seconds to now, now being \<open>Date.now()\<close> in whole seconds. When
  the answer has status \<open>ok\<close> the series has one entry per timestamp of the answer, in
  the answer's order, dated by that timestamp: it has at most 30 entries, and runs
  forward in time, exactly when the provider's timestamps do.
\<close>

theorem history_follows_provider:
  assumes "ticker st \<noteq> []" and "quoteApi w 0 (ticker st) = Some q"
  shows "requests (handleSearch w st) =
           requests st @ [QuoteGet (ticker st),
                          CandleGet (ticker st) (dateNow w div 1000 - 30 * 86400)
                                    (dateNow w div 1000)]
       \<and> (\<forall>data. candleApi w (ticker st) (dateNow w div 1000 - 30 * 86400) (dateNow w div 1000)
                    = Some data \<and> cd_s data = ''ok'' \<longrightarrow>
             length (chartData (handleSearch w st)) = length (cd_t data)
           \<and> map date (chartData (handleSearch w st))
               = map (\<lambda>ts. toLocaleDateString w (ts * 1000)) (cd_t data))"
  by (simp add: search_quote_ok [OF assms] candle_points_length candle_points_dates)

theorem history_follows_provider_witness:
  "ticker tsla_page \<noteq> []
   \<and> requests (handleSearch world_up tsla_page) =
       requests tsla_page @ [QuoteGet ''TSLA'', CandleGet ''TSLA'' 1697408000 1700000000]
   \<and> length (chartData (handleSearch world_up tsla_page)) = 2
   \<and> map date (chartData (handleSearch world_up tsla_page)) = [''11/13/2023'', ''11/14/2023'']"
proof -
  have t: "ticker tsla_page \<noteq> []" and tk: "ticker tsla_page = ''TSLA''"
    by (simp_all add: tsla_page_eq)
  have q: "quoteApi world_up 0 (ticker tsla_page) = Some \<lparr>q_c = 189.5, q_d = - 2, q_dp = - 1\<rparr>"
    by (simp add: world_up_def)
  have c: "candleApi world_up (ticker tsla_page) (dateNow world_up div 1000 - 30 * 86400)
             (dateNow world_up div 1000)
           = Some \<lparr>cd_s = ''ok'', cd_t = [1699833600, 1699920000], cd_c = [188, 189.5]\<rparr>"
    by (simp add: world_up_def)
  have now: "dateNow world_up div 1000 = 1700000000" "toLocaleDateString world_up = example_date"
    by (simp_all add: world_up_def)
  from history_follows_provider [OF t q] c show ?thesis
    by (simp add: t tk now example_date_def)
qed

text \<open>
  C7. When the Store delete succeeds, \<open>removeFromWatchlist\<close> leaves in memory exactly
  the entries whose symbol differs from the one removed, and sets no error. When the
  Store delete fails the watchlist in memory is what it was and the error is shown.
  Removing a symbol that is not on the watchlist leaves the watchlist as it was; no
  error is set when the Store accepts the delete of a row it does not hold.
\<close>

theorem remove_outcomes:
  "(storeDelete w smb = None \<longrightarrow>
      watchlist (removeFromWatchlist w smb st)
        = filter (\<lambda>item. item_symbol item \<noteq> smb) (watchlist st)
      \<and> (\<forall>item. item \<in> set (watchlist (removeFromWatchlist w smb st)) \<longleftrightarrow>
                  item \<in> set (watchlist st) \<and> item_symbol item \<noteq> smb)
      \<and> error (removeFromWatchlist w smb st) = error st)
   \<and> (storeDelete w smb \<noteq> None \<longrightarrow>
      watchlist (removeFromWatchlist w smb st) = watchlist st
      \<and> error (removeFromWatchlist w smb st)
          = ''Failed to remove from watchlist. Please try again.'')
   \<and> (\<not> isInWatchlist (watchlist st) smb \<longrightarrow>
      watchlist (removeFromWatchlist w smb st) = watchlist st
      \<and> (storeDelete w smb = None \<longrightarrow> error (removeFromWatchlist w smb st) = error st))"
proof (cases "storeDelete w smb")
  case None
  then show ?thesis by (simp add: remove_ok filter_absent)
next
  case (Some err)
  then show ?thesis by (simp add: remove_failed)
qed

theorem remove_outcomes_witness:
  "storeDelete world_up ''MSFT'' = None
   \<and> map item_symbol (watchlist (removeFromWatchlist world_up ''MSFT'' example_home))
       = [''AAPL'', ''aapl'']
   \<and> error (removeFromWatchlist world_up ''MSFT'' example_home) = []
   \<and> storeDelete world_store_down ''MSFT'' \<noteq> None
   \<and> watchlist (removeFromWatchlist world_store_down ''MSFT'' example_home)
       = watchlist example_home
   \<and> error (removeFromWatchlist world_store_down ''MSFT'' example_home)
       = ''Failed to remove from watchlist. Please try again.''
   \<and> \<not> isInWatchlist (watchlist example_home) ''TSLA''
   \<and> watchlist (removeFromWatchlist world_up ''TSLA'' example_home) = watchlist example_home
   \<and> error (removeFromWatchlist world_up ''TSLA'' example_home) = []"
proof -
  have up: "storeDelete world_up ''MSFT'' = None" "storeDelete world_up ''TSLA'' = None"
    and down: "storeDelete world_store_down ''MSFT'' \<noteq> None"
    by (simp_all add: world_up_def world_store_down_def)
  have absent: "\<not> isInWatchlist (watchlist example_home) ''TSLA''"
    by (simp add: isInWatchlist_def example_home_def)
  have wl: "map item_symbol (filter (\<lambda>item. item_symbol item \<noteq> ''MSFT'') (watchlist example_home))
              = [''AAPL'', ''aapl'']"
    and err: "error example_home = []"
    by (simp_all add: example_home_def)
  from remove_outcomes [of world_up "''MSFT''" example_home] up(1)
  have ok: "watchlist (removeFromWatchlist world_up ''MSFT'' example_home)
              = filter (\<lambda>item. item_symbol item \<noteq> ''MSFT'') (watchlist example_home)"
    "error (removeFromWatchlist world_up ''MSFT'' example_home) = error example_home"
    by blast+
  from remove_outcomes [of world_store_down "''MSFT''" example_home] down
  have failed: "watchlist (removeFromWatchlist world_store_down ''MSFT'' example_home)
                  = watchlist example_home"
    "error (removeFromWatchlist world_store_down ''MSFT'' example_home)
       = ''Failed to remove from watchlist. Please try again.''"
    by blast+
  from remove_outcomes [of world_up "''TSLA''" example_home] up(2) absent
  have noop: "watchlist (removeFromWatchlist world_up ''TSLA'' example_home)
                = watchlist example_home"
    "error (removeFromWatchlist world_up ''TSLA'' example_home) = error example_home"
    by blast+
  show ?thesis
    by (simp only: ok failed noop wl err up down absent simp_thms not_False_eq_True)
qed

text \<open>
  C8. A search of a non-empty ticker whose quote arrives, and whose history request
  either fails or is answered with a status other than \<open>ok\<close>, shows the quote, an empty
  history and no error.
\<close>

theorem search_history_best_effort:
  assumes "ticker st \<noteq> []" and "quoteApi w 0 (ticker st) = Some q"
    and "candleApi w (ticker st) (dateNow w div 1000 - 30 * 86400) (dateNow w div 1000) = None
         \<or> (\<exists>data. candleApi w (ticker st) (dateNow w div 1000 - 30 * 86400) (dateNow w div 1000)
                      = Some data \<and> cd_s data \<noteq> ''ok'')"
  shows "stockData (handleSearch w st)
           = Some \<lparr>symbol = ticker st, price = q_c q, change = q_d q, percentChange = q_dp q\<rparr>
       \<and> chartData (handleSearch w st) = []
       \<and> error (handleSearch w st) = []
       \<and> \<not> loading (handleSearch w st)"
  using assms(3) by (auto simp: search_quote_ok [OF assms(1,2)])

theorem search_history_best_effort_witness:
  "stockData (handleSearch world_no_data (example_home\<lparr>ticker := ''MSFT''\<rparr>))
     = Some \<lparr>symbol = ''MSFT'', price = 189.5, change = - 2, percentChange = - 1\<rparr>
   \<and> chartData (handleSearch world_no_data (example_home\<lparr>ticker := ''MSFT''\<rparr>)) = []
   \<and> error (handleSearch world_no_data (example_home\<lparr>ticker := ''MSFT''\<rparr>)) = []
   \<and> chartData (handleSearch (world_up\<lparr>candleApi := (\<lambda>smb from to. None)\<rparr>)
        (example_home\<lparr>ticker := ''MSFT''\<rparr>)) = []
   \<and> error (handleSearch (world_up\<lparr>candleApi := (\<lambda>smb from to. None)\<rparr>)
        (example_home\<lparr>ticker := ''MSFT''\<rparr>)) = []"
proof -
  let ?st = "example_home\<lparr>ticker := ''MSFT''\<rparr>"
  let ?down = "world_up\<lparr>candleApi := (\<lambda>smb from to. None)\<rparr>"
  have t: "ticker ?st \<noteq> []" by simp
  have q1: "quoteApi world_no_data 0 (ticker ?st) = Some \<lparr>q_c = 189.5, q_d = - 2, q_dp = - 1\<rparr>"
    and q2: "quoteApi ?down 0 (ticker ?st) = Some \<lparr>q_c = 189.5, q_d = - 2, q_dp = - 1\<rparr>"
    by (simp_all add: world_no_data_def world_up_def)
  have c1: "candleApi world_no_data (ticker ?st) (dateNow world_no_data div 1000 - 30 * 86400)
              (dateNow world_no_data div 1000) = None
            \<or> (\<exists>data. candleApi world_no_data (ticker ?st)
                         (dateNow world_no_data div 1000 - 30 * 86400)
                         (dateNow world_no_data div 1000) = Some data \<and> cd_s data \<noteq> ''ok'')"
    by (simp add: world_no_data_def)
  have c2: "candleApi ?down (ticker ?st) (dateNow ?down div 1000 - 30 * 86400)
              (dateNow ?down div 1000) = None
            \<or> (\<exists>data. candleApi ?down (ticker ?st) (dateNow ?down div 1000 - 30 * 86400)
                         (dateNow ?down div 1000) = Some data \<and> cd_s data \<noteq> ''ok'')"
    by simp
  from search_history_best_effort [OF t q1 c1] search_history_best_effort [OF t q2 c2]
  show ?thesis by simp
qed

text \<open>
  C9. Symbols are compared as the strings they are. For two different strings, however
  alike (AAPL and aapl, AAPL and AAPL followed by a blank): \<open>isInWatchlist\<close> finds a
  symbol exactly when an entry carries that very string, so a watchlist holding only one
  of the two does not contain the other; removing one leaves every entry of the other
  in place, whatever the Store answers; and the toggle removes when, and only when, an
  entry carries the very string it was given.
\<close>

theorem symbols_compared_exactly:
  assumes "smb \<noteq> smb'"
  shows "(isInWatchlist wl smb' \<longleftrightarrow> (\<exists>item \<in> set wl. item_symbol item = smb'))
       \<and> ((\<forall>item \<in> set wl. item_symbol item = smb) \<longrightarrow> \<not> isInWatchlist wl smb')
       \<and> filter (\<lambda>item. item_symbol item = smb) (watchlist (removeFromWatchlist w smb' st))
           = filter (\<lambda>item. item_symbol item = smb) (watchlist st)
       \<and> handleWatchlistToggle w smb' st
           = (if \<exists>item \<in> set (watchlist st). item_symbol item = smb'
              then removeFromWatchlist w smb' st else addToWatchlist w smb' st)"
proof -
  have keep: "filter (\<lambda>item. item_symbol item \<noteq> smb' \<and> item_symbol item = smb) xs
                = filter (\<lambda>item. item_symbol item = smb) xs" for xs :: "WatchlistItem list"
    using assms by (intro filter_cong) auto
  have "filter (\<lambda>item. item_symbol item = smb) (watchlist (removeFromWatchlist w smb' st))
           = filter (\<lambda>item. item_symbol item = smb) (watchlist st)"
    by (cases "storeDelete w smb'") (simp_all add: remove_ok remove_failed keep)
  moreover have "isInWatchlist xs smb' \<longleftrightarrow> (\<exists>item \<in> set xs. item_symbol item = smb')"
    for xs by (auto simp: isInWatchlist_iff)
  ultimately show ?thesis
    using assms by (auto simp: handleWatchlistToggle_def)
qed

theorem symbols_compared_exactly_witness:
  "''AAPL'' \<noteq> ''aapl'' \<and> ''AAPL'' \<noteq> ''AAPL ''
   \<and> \<not> isInWatchlist [\<lparr>item_id = 1, item_symbol = ''AAPL'', item_price = None,
                         item_change = None, item_percentChange = None\<rparr>] ''aapl''
   \<and> \<not> isInWatchlist [\<lparr>item_id = 1, item_symbol = ''AAPL'', item_price = None,
                         item_change = None, item_percentChange = None\<rparr>] ''AAPL ''
   \<and> map item_id (filter (\<lambda>item. item_symbol item = ''AAPL'')
        (watchlist (removeFromWatchlist world_up ''aapl'' example_home))) = [1]
   \<and> map item_symbol (watchlist (removeFromWatchlist world_up ''aapl'' example_home))
       = [''AAPL'', ''MSFT'']
   \<and> handleWatchlistToggle world_up ''AAPL '' example_home
       = addToWatchlist world_up ''AAPL '' example_home"
proof -
  let ?one = "[\<lparr>item_id = 1, item_symbol = ''AAPL'', item_price = None,
                 item_change = None, item_percentChange = None\<rparr>]"
  have d1: "''AAPL'' \<noteq> ''aapl''" and d2: "''AAPL'' \<noteq> ''AAPL ''"
    by simp_all
  have del: "storeDelete world_up ''aapl'' = None"
    by (simp add: world_up_def)
  have rest: "map item_symbol (watchlist (removeFromWatchlist world_up ''aapl'' example_home))
       = [''AAPL'', ''MSFT'']"
    by (simp add: remove_ok [OF del]) (simp add: example_home_def)
  have before: "map item_id (filter (\<lambda>item. item_symbol item = ''AAPL'') (watchlist example_home))
       = [1]"
    "\<not> (\<exists>item \<in> set (watchlist example_home). item_symbol item = ''AAPL '')"
    by (simp_all add: example_home_def)
  from symbols_compared_exactly [OF d1, of ?one world_up example_home]
    symbols_compared_exactly [OF d2, of ?one world_up example_home]
  show ?thesis
    using d1 d2 rest before by simp
qed

text \<open>
  C10. When the Store delete succeeds, the entries whose symbol differs from the one
  removed are after \<open>removeFromWatchlist\<close> what they were before, each with all its
  fields and in the same relative order; nothing else is on the watchlist.
\<close>

theorem remove_keeps_other_entries:
  assumes "storeDelete w smb = None"
  shows "filter (\<lambda>item. item_symbol item \<noteq> smb) (watchlist (removeFromWatchlist w smb st))
           = filter (\<lambda>item. item_symbol item \<noteq> smb) (watchlist st)
       \<and> subseq (watchlist (removeFromWatchlist w smb st)) (watchlist st)
       \<and> (\<forall>item \<in> set (watchlist st). item_symbol item \<noteq> smb \<longrightarrow>
             item \<in> set (watchlist (removeFromWatchlist w smb st)))
       \<and> (\<forall>item \<in> set (watchlist (removeFromWatchlist w smb st)). item_symbol item \<noteq> smb)"
  using assms by (simp add: remove_ok)

theorem remove_keeps_other_entries_witness:
  "storeDelete world_up ''MSFT'' = None
   \<and> watchlist (removeFromWatchlist world_up ''MSFT'' example_home)
       = [\<lparr>item_id = 1, item_symbol = ''AAPL'', item_price = Some 189.5,
            item_change = Some (- 2), item_percentChange = Some (- 1)\<rparr>,
          \<lparr>item_id = 3, item_symbol = ''aapl'', item_price = Some 189.5,
            item_change = Some (- 2), item_percentChange = Some (- 1)\<rparr>]
   \<and> subseq (watchlist (removeFromWatchlist world_up ''MSFT'' example_home))
        (watchlist example_home)"
proof -
  have del: "storeDelete world_up ''MSFT'' = None"
    by (simp add: world_up_def)
  have all_other: "\<forall>item \<in> set (watchlist (removeFromWatchlist world_up ''MSFT'' example_home)).
                     item_symbol item \<noteq> ''MSFT''"
    using remove_keeps_other_entries [OF del, of example_home] by blast
  have "watchlist (removeFromWatchlist world_up ''MSFT'' example_home)
          = filter (\<lambda>item. item_symbol item \<noteq> ''MSFT'')
              (watchlist (removeFromWatchlist world_up ''MSFT'' example_home))"
    using all_other by (simp add: filter_id_conv)
  also have "\<dots> = filter (\<lambda>item. item_symbol item \<noteq> ''MSFT'') (watchlist example_home)"
    using remove_keeps_other_entries [OF del, of example_home] by blast
  also have "\<dots> = [\<lparr>item_id = 1, item_symbol = ''AAPL'', item_price = Some 189.5,
            item_change = Some (- 2), item_percentChange = Some (- 1)\<rparr>,
          \<lparr>item_id = 3, item_symbol = ''aapl'', item_price = Some 189.5,
            item_change = Some (- 2), item_percentChange = Some (- 1)\<rparr>]"
    by (simp add: example_home_def)
  finally show ?thesis
    using del remove_keeps_other_entries [OF del, of example_home] by blast
qed

end
